theory Spec2Isabelle
  imports Main "HOL-Library.Sublist" "HOL-Library.AList"
begin

section \<open>Data model of \<open>imhotep/reporters/github.py\<close>\<close>

text \<open>
  A fetched comment is a JSON object; the deduplicator reads exactly four of its entries:
  \<open>comment["path"]\<close>, \<open>comment["position"]\<close>, \<open>comment["body"]\<close> and
  \<open>comment["user"]["login"]\<close>. The list of fetched comments has the annotated type
  \<open>List[Dict[str, Any]]\<close>; a comment is a record of these four entries.
\<close>

record comment =
  path :: string
  position :: int
  body :: string
  user_login :: string

text \<open>Outgoing payloads are Python dicts that are serialised to JSON. A dict keeps its
  insertion order, and assigning to an existing key keeps the key's place: an association
  list updated with \<open>AList.update\<close>.\<close>

datatype jval =
    JStr string
  | JInt int
  | JArr "jval list"
  | JObj "(string \<times> jval) list"

type_synonym payload = "(string \<times> jval) list"

text \<open>The \<open>message\<close> argument is annotated \<open>List[str]\<close>, but the callers (and
  the tests) also pass a single \<open>str\<close>; \<open>get_payload\<close> tests \<open>isinstance(message, str)\<close>.\<close>

datatype msg_arg = MsgStr string | MsgList "string list"

text \<open>What the transport returns: \<open>result.status_code\<close> and \<open>result.json()\<close>.\<close>

record 'j response =
  status_code :: int
  json :: 'j

text \<open>The calls that reached the transport, oldest first.\<close>

datatype event = GET string | POST string payload

text \<open>
  The requester is not part of the repository's sources: it is any object with a
  \<open>username\<close>, a \<open>get(url)\<close> and a \<open>post(url, payload)\<close>. Its answers are parameters of
  the model; they may depend on everything that was requested before. \<open>calls\<close> records
  the requests made, as the tests' \<open>MagicMock\<close> does.
\<close>

record requester =
  username :: string
  get_fn :: "event list \<Rightarrow> string \<Rightarrow> comment list response"
  post_fn :: "event list \<Rightarrow> string \<Rightarrow> payload \<Rightarrow> jval response"
  calls :: "event list"

definition requester_get :: "requester \<Rightarrow> string \<Rightarrow> comment list response \<times> requester" where
  "requester_get r url = (get_fn r (calls r) url, r\<lparr>calls := calls r @ [GET url]\<rparr>)"

definition requester_post ::
  "requester \<Rightarrow> string \<Rightarrow> payload \<Rightarrow> jval response \<times> requester" where
  "requester_post r url p = (post_fn r (calls r) url p, r\<lparr>calls := calls r @ [POST url p]\<rparr>)"

text \<open>A logging call keeps its level, its format string and its arguments.\<close>

datatype log_level = DEBUG | ERROR

datatype log_arg = AStr string | AComments "comment list" | AJson jval

type_synonym log_entry = "log_level \<times> string \<times> log_arg list"

text \<open>The classes: \<open>GitHubReporter\<close>, extended by \<open>PRReporter\<close>, extended by
  \<open>PRReviewReporter\<close>. \<open>priv_comments\<close> is the attribute \<open>_comments\<close>; \<open>comments\<close> is
  the list of pending review payloads; \<open>pr_reviews_url\<close> is an attribute that only
  \<open>submit_review\<close> sets. \<open>log_records\<close> is what the module's logger has received.
  \<open>pr_number\<close> has its annotated type \<open>str\<close>; it only occurs formatted into URLs.\<close>

record github_reporter =
  priv_comments :: "comment list"
  domain :: string
  repo_name :: string
  requester :: requester
  log_records :: "log_entry list"

record pr_reporter = github_reporter +
  pr_number :: string
  pr_comments_url :: string

record pr_review_reporter = pr_reporter +
  comments :: "payload list"
  pr_reviews_url :: "string option"

definition log_debug ::
  "'a github_reporter_scheme \<Rightarrow> string \<Rightarrow> log_arg list \<Rightarrow> 'a github_reporter_scheme" where
  "log_debug self fmt args = self\<lparr>log_records := log_records self @ [(DEBUG, fmt, args)]\<rparr>"

definition log_error ::
  "'a github_reporter_scheme \<Rightarrow> string \<Rightarrow> log_arg list \<Rightarrow> 'a github_reporter_scheme" where
  "log_error self fmt args = self\<lparr>log_records := log_records self @ [(ERROR, fmt, args)]\<rparr>"

section \<open>Strings\<close>

text \<open>\<open>m in b\<close> on two Python strings: \<open>m\<close> occurs in \<open>b\<close> as a contiguous run.\<close>

fun str_contains :: "string \<Rightarrow> string \<Rightarrow> bool" where
  "str_contains [] m = (m = [])"
| "str_contains (b # bs) m = (prefix m (b # bs) \<or> str_contains bs m)"

text \<open>Iterating over the message: the elements of a list, the one-character strings of a
  \<open>str\<close>.\<close>

fun iter_msg :: "msg_arg \<Rightarrow> string list" where
  "iter_msg (MsgList ms) = ms"
| "iter_msg (MsgStr s) = map (\<lambda>c. [c]) s"

text \<open>\<open>not message\<close>: an empty list and an empty string are falsy.\<close>

fun msg_falsy :: "msg_arg \<Rightarrow> bool" where
  "msg_falsy (MsgList ms) = (ms = [])"
| "msg_falsy (MsgStr s) = (s = [])"

text \<open>\<open>str(n)\<close> of a length, as \<open>"{}".format(len(...))\<close> renders it.\<close>

definition digit_char :: "nat \<Rightarrow> char" where
  "digit_char d = ''0123456789'' ! d"

function str_of_nat :: "nat \<Rightarrow> string" where
  "str_of_nat n = (if n < 10 then [digit_char n] else str_of_nat (n div 10) @ [digit_char (n mod 10)])"
  by pat_completeness auto
termination
  by (relation "measure (\<lambda>n. n)") auto

declare str_of_nat.simps [simp del]

section \<open>\<open>GitHubReporter\<close>\<close>

definition GitHubReporter_init :: "requester \<Rightarrow> string \<Rightarrow> string \<Rightarrow> github_reporter" where
  "GitHubReporter_init rq dmn repo =
     \<lparr>priv_comments = [], domain = dmn, repo_name = repo, requester = rq, log_records = []\<rparr>"

text \<open>The loop of \<open>clean_already_reported\<close>: the first comment that passes the test
  returns from the function.\<close>

fun clean_loop :: "string \<Rightarrow> comment list \<Rightarrow> string \<Rightarrow> int \<Rightarrow> msg_arg \<Rightarrow> msg_arg" where
  "clean_loop uname [] file_name pos message = message"
| "clean_loop uname (c # cs) file_name pos message =
     (if path c = file_name \<and> position c = pos \<and> user_login c = uname
      then MsgList (filter (\<lambda>m. \<not> str_contains (body c) m) (iter_msg message))
      else clean_loop uname cs file_name pos message)"

definition clean_already_reported ::
  "'a github_reporter_scheme \<Rightarrow> comment list \<Rightarrow> string \<Rightarrow> int \<Rightarrow> msg_arg \<Rightarrow> msg_arg" where
  "clean_already_reported self cs file_name pos message =
     clean_loop (username (requester self)) cs file_name pos message"

definition get_comments ::
  "'a github_reporter_scheme \<Rightarrow> string \<Rightarrow> comment list \<times> 'a github_reporter_scheme" where
  "get_comments self report_url =
     (if priv_comments self = [] then
        (let self1 = log_debug self ''PR Request: %s'' [AStr report_url];
             (result, rq) = requester_get (requester self1) report_url;
             self2 = self1\<lparr>requester := rq\<rparr>
         in if status_code result \<ge> 400 then
              (let self3 = log_error self2 ''Error requesting comments from github. %s''
                             [AComments (json result)]
               in (priv_comments self3, self3))
            else
              (let self3 = self2\<lparr>priv_comments := json result\<rparr>
               in (priv_comments self3, self3)))
      else (priv_comments self, self))"

text \<open>\<open>if isinstance(message, str): message = [message]\<close>\<close>

fun normalize_message :: "msg_arg \<Rightarrow> msg_arg" where
  "normalize_message (MsgStr s) = MsgList [s]"
| "normalize_message (MsgList ms) = MsgList ms"

fun convert_loop :: "string \<Rightarrow> string list \<Rightarrow> string" where
  "convert_loop final_message [] = final_message"
| "convert_loop final_message (submessage # rest) =
     convert_loop (final_message @ ''* '' @ submessage @ [CHR 0x0A]) rest"

definition convert_message_to_string :: "msg_arg \<Rightarrow> string" where
  "convert_message_to_string message = convert_loop [] (iter_msg message)"

definition get_payload ::
  "'a github_reporter_scheme \<Rightarrow> string \<Rightarrow> string option \<Rightarrow> string option \<Rightarrow> string \<Rightarrow> int
     \<Rightarrow> msg_arg \<Rightarrow> payload option \<times> 'a github_reporter_scheme" where
  "get_payload self comments_url commit commit_key file_name pos message =
     (let (existing_comments, self1) = get_comments self comments_url;
          message1 = normalize_message message;
          message2 = clean_already_reported self1 existing_comments file_name pos message1
      in if msg_falsy message2 then
           (None, log_debug self1 ''Message already reported'' [])
         else
           (let p = [(''body'', JStr (convert_message_to_string message2)),
                     (''path'', JStr file_name),
                     (''position'', JInt pos)];
                p1 = (case commit_key of
                        None \<Rightarrow> p
                      | Some k \<Rightarrow> (case commit of None \<Rightarrow> p | Some c \<Rightarrow> AList.update k (JStr c) p))
            in (Some p1, self1)))"

text \<open>The tail shared by the posting methods: log the request and the payload, post, log
  an error on a status of 400 or more, return the response.\<close>

definition post_and_log ::
  "'a github_reporter_scheme \<Rightarrow> string \<Rightarrow> string \<Rightarrow> string \<Rightarrow> string \<Rightarrow> payload
     \<Rightarrow> jval response \<times> 'a github_reporter_scheme" where
  "post_and_log self fmt_request fmt_payload fmt_error url p =
     (let self1 = log_debug self fmt_request [AStr url];
          self2 = log_debug self1 fmt_payload [AJson (JObj p)];
          (result, rq) = requester_post (requester self2) url p;
          self3 = self2\<lparr>requester := rq\<rparr>;
          self4 = (if status_code result \<ge> 400
                   then log_error self3 fmt_error [AJson (json result)] else self3)
      in (result, self4))"

section \<open>\<open>CommitReporter\<close>\<close>

definition commit_report_url :: "'a github_reporter_scheme \<Rightarrow> string \<Rightarrow> string" where
  "commit_report_url self commit =
     ''https://api.'' @ domain self @ ''/repos/'' @ repo_name self @ ''/commits/'' @ commit
       @ ''/comments''"

definition CommitReporter_report_line ::
  "'a github_reporter_scheme \<Rightarrow> string \<Rightarrow> string \<Rightarrow> int \<Rightarrow> msg_arg
     \<Rightarrow> jval response option \<times> 'a github_reporter_scheme" where
  "CommitReporter_report_line self commit file_name pos message =
     (let report_url = commit_report_url self commit;
          (cs, self1) = get_comments self report_url;
          message1 = clean_already_reported self1 cs file_name pos message;
          (p, self2) = get_payload self1 report_url (Some commit) (Some ''commit_sha'')
                         file_name pos message1
      in case p of
           None \<Rightarrow> (None, self2)
         | Some pl \<Rightarrow>
             (let (result, self3) = post_and_log self2 ''Commit Request: %s''
                                      ''Commit Payload: %s'' ''Error posting line to github. %s''
                                      report_url pl
              in (Some result, self3)))"

section \<open>\<open>PRReporter\<close>\<close>

definition PRReporter_init :: "requester \<Rightarrow> string \<Rightarrow> string \<Rightarrow> string \<Rightarrow> pr_reporter" where
  "PRReporter_init rq dmn repo num =
     github_reporter.extend (GitHubReporter_init rq dmn repo)
       (pr_reporter.fields num
          (''https://api.'' @ dmn @ ''/repos/'' @ repo @ ''/pulls/'' @ num @ ''/comments''))"

definition PRReporter_report_line ::
  "'a pr_reporter_scheme \<Rightarrow> string \<Rightarrow> string \<Rightarrow> int \<Rightarrow> msg_arg
     \<Rightarrow> jval response option \<times> 'a pr_reporter_scheme" where
  "PRReporter_report_line self commit file_name pos message =
     (let (p, self1) = get_payload self (pr_comments_url self) (Some commit) (Some ''commit_id'')
                         file_name pos message
      in case p of
           None \<Rightarrow> (None, self1)
         | Some pl \<Rightarrow>
             (let (result, self2) = post_and_log self1 ''PR Request: %s'' ''PR Payload: %s''
                                      ''Error posting line to github. %s''
                                      (pr_comments_url self1) pl
              in (Some result, self2)))"

definition post_comment ::
  "'a pr_reporter_scheme \<Rightarrow> string \<Rightarrow> jval response \<times> 'a pr_reporter_scheme" where
  "post_comment self message =
     (let report_url = ''https://api.'' @ domain self @ ''/repos/'' @ repo_name self
                         @ ''/issues/'' @ pr_number self @ ''/comments'';
          (result, rq) = requester_post (requester self) report_url [(''body'', JStr message)];
          self1 = self\<lparr>requester := rq\<rparr>;
          self2 = (if status_code result \<ge> 400
                   then log_error self1 ''Error posting comment to github. %s''
                          [AJson (json result)]
                   else self1)
      in (result, self2))"

section \<open>\<open>PRReviewReporter\<close>\<close>

definition PRReviewReporter_init ::
  "requester \<Rightarrow> string \<Rightarrow> string \<Rightarrow> string \<Rightarrow> pr_review_reporter" where
  "PRReviewReporter_init rq dmn repo num =
     pr_reporter.extend (PRReporter_init rq dmn repo num) (pr_review_reporter.fields [] None)"

definition PRReviewReporter_report_line ::
  "'a pr_review_reporter_scheme \<Rightarrow> string \<Rightarrow> string \<Rightarrow> int \<Rightarrow> msg_arg
     \<Rightarrow> jval response option \<times> 'a pr_review_reporter_scheme" where
  "PRReviewReporter_report_line self commit file_name pos message =
     (let (p, self1) = get_payload self (pr_comments_url self) None None file_name pos message
      in case p of
           None \<Rightarrow> (None, self1)
         | Some pl \<Rightarrow> (None, self1\<lparr>comments := comments self1 @ [pl]\<rparr>))"

definition reviews_url :: "'a pr_reporter_scheme \<Rightarrow> string" where
  "reviews_url self =
     ''https://api.'' @ domain self @ ''/repos/'' @ repo_name self @ ''/pulls/'' @ pr_number self
       @ ''/reviews''"

definition review_payload :: "payload list \<Rightarrow> payload" where
  "review_payload pending =
     [(''body'', JStr (''Imhotep detected '' @ str_of_nat (length pending)
                        @ '' potential problems with this PR.'')),
      (''event'', JStr ''COMMENT''),
      (''comments'', JArr (map JObj pending))]"

definition submit_review ::
  "'a pr_review_reporter_scheme \<Rightarrow> jval response option \<times> 'a pr_review_reporter_scheme" where
  "submit_review self =
     (let self1 = self\<lparr>pr_reviews_url := Some (reviews_url self)\<rparr>
      in if length (comments self1) = 0 then (None, self1)
         else
           (let (result, self2) = post_and_log self1 ''PR Request: %s'' ''PR Payload: %s''
                                    ''Error posting review to github. %s''
                                    (the (pr_reviews_url self1)) (review_payload (comments self1))
            in (Some result, self2)))"

section \<open>Fixtures of \<open>reporters_test.py\<close>\<close>

text \<open>The tests' requester: a mock whose \<open>username\<close> is \<open>"magicmock"\<close>, whose \<open>get\<close>
  gives one fixed response and whose \<open>post\<close> answers with status 200.\<close>

definition mock_requester :: "comment list response \<Rightarrow> requester" where
  "mock_requester resp =
     \<lparr>username = ''magicmock'',
      get_fn = (\<lambda>_ _. resp),
      post_fn = (\<lambda>_ _ _. \<lparr>status_code = 200, json = JObj []\<rparr>),
      calls = []\<rparr>"

definition comment_out :: comment where
  "comment_out =
     \<lparr>path = ''foo.py'', position = 2, body = ''Get that out'', user_login = ''magicmock''\<rparr>"

definition comment_different :: comment where
  "comment_different =
     \<lparr>path = ''foo.py'', position = 2, body = ''Different comment'',
      user_login = ''magicmock''\<rparr>"

definition cached_reporter :: "comment list \<Rightarrow> github_reporter" where
  "cached_reporter cs =
     (GitHubReporter_init (mock_requester \<lparr>status_code = 200, json = []\<rparr>)
        ''github.com'' ''foo/bar'')\<lparr>priv_comments := cs\<rparr>"

text \<open>The reporter of the tests of \<open>PRReviewReporter\<close>, with a transport that answers 200
  and no comments, and the pending entry \<open>test_pr_review_reporter_should_post_review\<close>
  stores.\<close>

definition review_reporter :: pr_review_reporter where
  "review_reporter =
     PRReviewReporter_init (mock_requester \<lparr>status_code = 200, json = []\<rparr>)
       ''github.com'' ''justinabrahms/imhotep'' ''10''"

definition lorem_payload :: payload where
  "lorem_payload =
     [(''body'', JStr ''* lorem\<newline>''), (''path'', JStr ''script.py''), (''position'', JInt 0)]"

section \<open>Comparison definitions\<close>

text \<open>\<open>CommitReporter.report_line\<close> without its own call of \<open>clean_already_reported\<close>
  (line 100 of the source): the message handed to \<open>get_payload\<close> is the argument
  \<open>message1\<close>. It is what the method is compared with; the code is
  \<open>CommitReporter_report_line\<close>.\<close>

definition CommitReporter_report_line_passing ::
  "'a github_reporter_scheme \<Rightarrow> string \<Rightarrow> string \<Rightarrow> int \<Rightarrow> msg_arg
     \<Rightarrow> jval response option \<times> 'a github_reporter_scheme" where
  "CommitReporter_report_line_passing self commit file_name pos message1 =
     (let report_url = commit_report_url self commit;
          (cs, self1) = get_comments self report_url;
          (p, self2) = get_payload self1 report_url (Some commit) (Some ''commit_sha'')
                         file_name pos message1
      in case p of
           None \<Rightarrow> (None, self2)
         | Some pl \<Rightarrow>
             (let (result, self3) = post_and_log self2 ''Commit Request: %s''
                                      ''Commit Payload: %s'' ''Error posting line to github. %s''
                                      report_url pl
              in (Some result, self3)))"

text \<open>The candidate messages that survive the deduplication inside \<open>get_payload\<close> (lines
  73 to 78 of the source), and the rendering the claims describe: each message prefixed with
  \<open>"* "\<close> and followed by a line break, concatenated in order.\<close>

definition survivors ::
  "'a github_reporter_scheme \<Rightarrow> string \<Rightarrow> string \<Rightarrow> int \<Rightarrow> msg_arg \<Rightarrow> string list" where
  "survivors self url file_name pos message =
     iter_msg (clean_already_reported self (fst (get_comments self url)) file_name pos
                 (normalize_message message))"

definition bullet_body :: "string list \<Rightarrow> string" where
  "bullet_body ms = concat (map (\<lambda>m. ''* '' @ m @ [CHR 0x0A]) ms)"

section \<open>Observing the transport\<close>

fun is_get :: "event \<Rightarrow> bool" where
  "is_get (GET url) = True"
| "is_get (POST url p) = False"

fun is_post :: "event \<Rightarrow> bool" where
  "is_post (GET url) = False"
| "is_post (POST url p) = True"

definition count_gets :: "event list \<Rightarrow> nat" where
  "count_gets evs = length (filter is_get evs)"

definition count_posts :: "event list \<Rightarrow> nat" where
  "count_posts evs = length (filter is_post evs)"

text \<open>A driver calling \<open>get_comments\<close> once for each target of a list, in order.\<close>

fun get_comments_each :: "'a github_reporter_scheme \<Rightarrow> string list \<Rightarrow> 'a github_reporter_scheme" where
  "get_comments_each self [] = self"
| "get_comments_each self (url # urls) = get_comments_each (snd (get_comments self url)) urls"

text \<open>A driver of a \<open>PRReviewReporter\<close>: any sequence of calls of \<open>report_line\<close> and
  \<open>submit_review\<close>, with the list of what the calls returned.\<close>

datatype review_call = ReportLine string string int msg_arg | SubmitReview

fun run_call ::
  "'a pr_review_reporter_scheme \<Rightarrow> review_call
     \<Rightarrow> jval response option \<times> 'a pr_review_reporter_scheme" where
  "run_call self (ReportLine commit file_name pos message) =
     PRReviewReporter_report_line self commit file_name pos message"
| "run_call self SubmitReview = submit_review self"

fun run_calls ::
  "'a pr_review_reporter_scheme \<Rightarrow> review_call list
     \<Rightarrow> jval response option list \<times> 'a pr_review_reporter_scheme" where
  "run_calls self [] = ([], self)"
| "run_calls self (c # cs) =
     (let (r, self1) = run_call self c;
          (rs, self2) = run_calls self1 cs
      in (r # rs, self2))"

text \<open>Reading a decimal numeral, to compare \<open>str_of_nat\<close> with.\<close>

definition digit_val :: "char \<Rightarrow> nat" where
  "digit_val c = of_char c - 48"

definition nat_of_str :: "string \<Rightarrow> nat" where
  "nat_of_str s = foldl (\<lambda>a c. 10 * a + digit_val c) 0 s"

section \<open>Auxiliary facts\<close>

lemma str_contains_sublist: "str_contains b m \<longleftrightarrow> sublist m b"
  by (induction b) (simp_all add: sublist_Cons_right)

lemma str_contains_char: "str_contains b [c] \<longleftrightarrow> c \<in> set b"
  by (induction b) auto

lemma clean_loop_find:
  "clean_loop un cs f p msg =
     (case find (\<lambda>c. path c = f \<and> position c = p \<and> user_login c = un) cs of
        None \<Rightarrow> msg
      | Some c \<Rightarrow> MsgList (filter (\<lambda>m. \<not> str_contains (body c) m) (iter_msg msg)))"
  by (induction cs) simp_all

lemma clean_loop_list:
  "\<exists>ms'. clean_loop un cs f p (MsgList ms) = MsgList ms' \<and> subseq ms' ms"
  by (induction cs) auto

lemma clean_loop_idem:
  "clean_loop un cs f p (clean_loop un cs f p (MsgList ms)) = clean_loop un cs f p (MsgList ms)"
  by (simp add: clean_loop_find split: option.splits)

lemma convert_loop_concat:
  "convert_loop acc ms = acc @ concat (map (\<lambda>m. ''* '' @ m @ [CHR 0x0A]) ms)"
  by (induction ms arbitrary: acc) simp_all

lemmas gc_defs = get_comments_def requester_get_def log_debug_def log_error_def Let_def

lemma get_comments_cached:
  "priv_comments s \<noteq> [] \<Longrightarrow> get_comments s u = (priv_comments s, s)"
  by (simp add: get_comments_def)

lemma get_comments_calls:
  "calls (requester (snd (get_comments s u))) =
     (if priv_comments s = [] then calls (requester s) @ [GET u] else calls (requester s))"
  by (simp add: gc_defs split: prod.splits)

lemma get_comments_fst: "fst (get_comments s u) = priv_comments (snd (get_comments s u))"
  by (simp add: gc_defs split: prod.splits)

lemma get_comments_priv:
  "priv_comments (snd (get_comments s u)) =
     (if priv_comments s = [] then
        (if status_code (get_fn (requester s) (calls (requester s)) u) \<ge> 400 then []
         else json (get_fn (requester s) (calls (requester s)) u))
      else priv_comments s)"
  by (simp add: gc_defs split: prod.splits)

lemma get_comments_keeps [simp]:
  "username (requester (snd (get_comments s u))) = username (requester s)"
  "get_fn (requester (snd (get_comments s u))) = get_fn (requester s)"
  "post_fn (requester (snd (get_comments s u))) = post_fn (requester s)"
  "github_reporter.more (snd (get_comments s u)) = github_reporter.more s"
  "domain (snd (get_comments s u)) = domain s"
  "repo_name (snd (get_comments s u)) = repo_name s"
  by (simp_all add: gc_defs split: prod.splits)

lemma normalize_clean_loop:
  "normalize_message (clean_loop un cs f p (MsgList ms)) = clean_loop un cs f p (MsgList ms)"
  using clean_loop_list [of un cs f p ms] by auto

lemma get_payload_prefilter:
  "get_payload s1 u c k f p
     (clean_loop (username (requester s1)) (priv_comments s1) f p (MsgList ms))
   = get_payload s1 u c k f p (MsgList ms)"
proof (cases "priv_comments s1 = []")
  case True
  then show ?thesis by simp
next
  case False
  then show ?thesis
    by (simp add: get_payload_def get_comments_cached clean_already_reported_def
        normalize_clean_loop clean_loop_idem)
qed

lemma report_line_passing:
  "CommitReporter_report_line self commit f p message =
     CommitReporter_report_line_passing self commit f p
       (clean_loop (username (requester self))
          (fst (get_comments self (commit_report_url self commit))) f p message)"
proof -
  have a: "clean_already_reported (snd (get_comments self u)) cs f p message
           = clean_loop (username (requester self)) cs f p message" for cs u
    by (simp add: clean_already_reported_def)
  show ?thesis
    unfolding CommitReporter_report_line_def CommitReporter_report_line_passing_def Let_def
      split_beta a ..
qed

text \<open>The definitions a concrete run unfolds.\<close>

lemmas run_defs =
  get_comments_def requester_get_def requester_post_def log_debug_def log_error_def Let_def
  get_payload_def clean_already_reported_def convert_message_to_string_def post_and_log_def
  commit_report_url_def CommitReporter_report_line_def PRReporter_report_line_def
  PRReviewReporter_report_line_def submit_review_def reviews_url_def review_payload_def
  GitHubReporter_init_def PRReporter_init_def PRReviewReporter_init_def mock_requester_def
  cached_reporter_def comment_out_def comment_different_def AList.update.simps
  github_reporter.defs pr_reporter.defs pr_review_reporter.defs

lemma clean_loop_normalized:
  "clean_loop un cs f p (normalize_message msg)
   = MsgList (case find (\<lambda>c. path c = f \<and> position c = p \<and> user_login c = un) cs of
                None \<Rightarrow> iter_msg (normalize_message msg)
              | Some c \<Rightarrow> filter (\<lambda>m. \<not> sublist m (body c)) (iter_msg (normalize_message msg)))"
  by (cases msg) (simp_all add: clean_loop_find str_contains_sublist split: option.splits)

lemma survivors_find:
  "survivors s u f p msg =
     (case find (\<lambda>c. path c = f \<and> position c = p \<and> user_login c = username (requester s))
             (fst (get_comments s u)) of
        None \<Rightarrow> iter_msg (normalize_message msg)
      | Some c \<Rightarrow> filter (\<lambda>m. \<not> sublist m (body c)) (iter_msg (normalize_message msg)))"
  by (simp add: survivors_def clean_already_reported_def clean_loop_normalized)

lemma clean_in_get_payload:
  "clean_already_reported (snd (get_comments s u)) (fst (get_comments s u)) f p
     (normalize_message msg) = MsgList (survivors s u f p msg)"
  by (simp add: survivors_def clean_already_reported_def clean_loop_normalized)

lemma get_payload_fst:
  "fst (get_payload s u commit ck f p msg) =
     (if survivors s u f p msg = [] then None
      else Some (case ck of
                   None \<Rightarrow> [(''body'', JStr (bullet_body (survivors s u f p msg))),
                            (''path'', JStr f), (''position'', JInt p)]
                 | Some k \<Rightarrow>
                     (case commit of
                        None \<Rightarrow> [(''body'', JStr (bullet_body (survivors s u f p msg))),
                                 (''path'', JStr f), (''position'', JInt p)]
                      | Some c \<Rightarrow> AList.update k (JStr c)
                                   [(''body'', JStr (bullet_body (survivors s u f p msg))),
                                    (''path'', JStr f), (''position'', JInt p)])))"
  by (simp add: get_payload_def Let_def split_beta clean_in_get_payload bullet_body_def
      convert_message_to_string_def convert_loop_concat split: option.splits)

lemma get_payload_snd:
  "snd (get_payload s u commit ck f p msg) =
     (if survivors s u f p msg = []
      then log_debug (snd (get_comments s u)) ''Message already reported'' []
      else snd (get_comments s u))"
  by (simp add: get_payload_def Let_def split_beta clean_in_get_payload)

lemma get_payload_calls:
  "calls (requester (snd (get_payload s u commit ck f p msg)))
   = calls (requester (snd (get_comments s u)))"
  by (simp add: get_payload_snd log_debug_def)

lemma get_payload_priv:
  "priv_comments (snd (get_payload s u commit ck f p msg))
   = priv_comments (snd (get_comments s u))"
  by (simp add: get_payload_snd log_debug_def)

lemma get_payload_keeps [simp]:
  "username (requester (snd (get_payload s u commit ck f p msg))) = username (requester s)"
  "get_fn (requester (snd (get_payload s u commit ck f p msg))) = get_fn (requester s)"
  "post_fn (requester (snd (get_payload s u commit ck f p msg))) = post_fn (requester s)"
  "github_reporter.more (snd (get_payload s u commit ck f p msg)) = github_reporter.more s"
  "domain (snd (get_payload s u commit ck f p msg)) = domain s"
  "repo_name (snd (get_payload s u commit ck f p msg)) = repo_name s"
  by (simp_all add: get_payload_snd log_debug_def)

lemma post_and_log_fst:
  "fst (post_and_log s fr fp fe url p) = post_fn (requester s) (calls (requester s)) url p"
  by (simp add: post_and_log_def requester_post_def log_debug_def log_error_def Let_def)

lemma post_and_log_calls:
  "calls (requester (snd (post_and_log s fr fp fe url p))) = calls (requester s) @ [POST url p]"
  by (simp add: post_and_log_def requester_post_def log_debug_def log_error_def Let_def)

lemma post_and_log_keeps [simp]:
  "priv_comments (snd (post_and_log s fr fp fe url p)) = priv_comments s"
  "username (requester (snd (post_and_log s fr fp fe url p))) = username (requester s)"
  "get_fn (requester (snd (post_and_log s fr fp fe url p))) = get_fn (requester s)"
  "post_fn (requester (snd (post_and_log s fr fp fe url p))) = post_fn (requester s)"
  "github_reporter.more (snd (post_and_log s fr fp fe url p)) = github_reporter.more s"
  "domain (snd (post_and_log s fr fp fe url p)) = domain s"
  "repo_name (snd (post_and_log s fr fp fe url p)) = repo_name s"
  by (simp_all add: post_and_log_def requester_post_def log_debug_def log_error_def Let_def)

lemma count_append [simp]:
  "count_gets (xs @ ys) = count_gets xs + count_gets ys"
  "count_posts (xs @ ys) = count_posts xs + count_posts ys"
  by (simp_all add: count_gets_def count_posts_def)

lemma count_single [simp]:
  "count_gets [] = 0" "count_posts [] = 0"
  "count_gets [GET u] = 1" "count_posts [GET u] = 0"
  "count_gets [POST u p] = 0" "count_posts [POST u p] = 1"
  by (simp_all add: count_gets_def count_posts_def)

lemma get_comments_each_cached:
  "priv_comments s \<noteq> [] \<Longrightarrow> get_comments_each s us = s"
  by (induction us) (simp_all add: get_comments_cached)

lemma get_payload_pr_fields [simp]:
  "pr_comments_url (snd (get_payload s u commit ck f p msg)) = pr_comments_url s"
  "pr_number (snd (get_payload s u commit ck f p msg)) = pr_number s"
  by (simp_all add: get_payload_snd gc_defs split_beta)

lemma get_payload_review_fields [simp]:
  "comments (snd (get_payload s u commit ck f p msg)) = comments s"
  "pr_reviews_url (snd (get_payload s u commit ck f p msg)) = pr_reviews_url s"
  by (simp_all add: get_payload_snd gc_defs split_beta)

lemma post_and_log_review_fields [simp]:
  "comments (snd (post_and_log s fr fp fe url p)) = comments s"
  "pr_number (snd (post_and_log s fr fp fe url p)) = pr_number s"
  by (simp_all add: post_and_log_def requester_post_def log_debug_def log_error_def Let_def)

lemma pr_report_line_calls:
  "calls (requester (snd (PRReporter_report_line s c f p m)))
   = calls (requester (snd (get_comments s (pr_comments_url s))))
     @ (case fst (get_payload s (pr_comments_url s) (Some c) (Some ''commit_id'') f p m) of
          None \<Rightarrow> [] | Some pl \<Rightarrow> [POST (pr_comments_url s) pl])"
  by (simp add: PRReporter_report_line_def split_beta post_and_log_calls get_payload_calls
      split: option.splits)

lemma review_report_line_calls:
  "calls (requester (snd (PRReviewReporter_report_line s c f p m)))
   = calls (requester (snd (get_comments s (pr_comments_url s))))"
  by (simp add: PRReviewReporter_report_line_def split_beta get_payload_calls
      split: option.splits)

lemma commit_report_line_calls:
  "calls (requester (snd (CommitReporter_report_line s c f p m)))
   = calls (requester (snd (get_comments (snd (get_comments s (commit_report_url s c)))
                              (commit_report_url s c))))
     @ (case fst (CommitReporter_report_line s c f p m) of
          None \<Rightarrow> []
        | Some r \<Rightarrow> [POST (commit_report_url s c)
                      (the (fst (get_payload (snd (get_comments s (commit_report_url s c)))
                                   (commit_report_url s c) (Some c) (Some ''commit_sha'') f p
                                   (clean_already_reported (snd (get_comments s (commit_report_url s c)))
                                      (fst (get_comments s (commit_report_url s c))) f p m))))])"
  by (simp add: CommitReporter_report_line_def Let_def split_beta post_and_log_calls
      get_payload_calls split: option.splits)

lemma count_cons [simp]:
  "count_gets (GET u # evs) = Suc (count_gets evs)"
  "count_posts (GET u # evs) = count_posts evs"
  "count_gets (POST u p # evs) = count_gets evs"
  "count_posts (POST u p # evs) = Suc (count_posts evs)"
  by (simp_all add: count_gets_def count_posts_def)

lemma digit_val_digit_char: "d < 10 \<Longrightarrow> digit_val (digit_char d) = d"
proof -
  assume "d < 10"
  then have "d \<in> {0, 1, 2, 3, 4, 5, 6, 7, 8, 9}" by auto
  then show ?thesis
    by (auto simp add: digit_val_def digit_char_def)
qed

lemma nat_of_str_snoc: "nat_of_str (s @ [c]) = 10 * nat_of_str s + digit_val c"
  by (simp add: nat_of_str_def)

lemma nat_of_str_of_nat: "nat_of_str (str_of_nat n) = n"
proof (induction n rule: str_of_nat.induct)
  case (1 n)
  show ?case
  proof (cases "n < 10")
    case True
    then show ?thesis
      by (subst str_of_nat.simps) (simp add: nat_of_str_def digit_val_digit_char)
  next
    case False
    with 1 show ?thesis
      by (subst str_of_nat.simps) (simp add: nat_of_str_snoc digit_val_digit_char)
  qed
qed

lemma reviews_url_keeps [simp]:
  "reviews_url (snd (get_payload s u commit ck f p msg)) = reviews_url s"
  "reviews_url (snd (post_and_log s fr fp fe url pl)) = reviews_url s"
  "reviews_url (s\<lparr>pr_reviews_url := x\<rparr>) = reviews_url s"
  "reviews_url (s\<lparr>comments := y\<rparr>) = reviews_url s"
  by (simp_all add: reviews_url_def)

lemma submit_review_calls:
  "calls (requester (snd (submit_review s)))
   = calls (requester s)
     @ (if comments s = [] then [] else [POST (reviews_url s) (review_payload (comments s))])"
  by (simp add: submit_review_def Let_def split_beta post_and_log_calls)

lemma submit_review_keeps [simp]:
  "comments (snd (submit_review s)) = comments s"
  "reviews_url (snd (submit_review s)) = reviews_url s"
  by (simp_all add: submit_review_def Let_def split_beta)

lemma review_report_line_fst: "fst (PRReviewReporter_report_line s c f p m) = None"
  by (simp add: PRReviewReporter_report_line_def split_beta split: option.splits)

lemma review_report_line_comments:
  "comments (snd (PRReviewReporter_report_line s c f p m))
   = comments s @ (case fst (get_payload s (pr_comments_url s) None None f p m) of
                     None \<Rightarrow> [] | Some pl \<Rightarrow> [pl])"
  by (simp add: PRReviewReporter_report_line_def split_beta split: option.splits)

lemma review_report_line_reviews_url [simp]:
  "reviews_url (snd (PRReviewReporter_report_line s c f p m)) = reviews_url s"
  by (simp add: PRReviewReporter_report_line_def split_beta split: option.splits)

lemma run_call_calls:
  "\<exists>new. calls (requester (snd (run_call s c))) = calls (requester s) @ new
     \<and> (\<forall>e \<in> set new. is_post e \<longrightarrow>
           c = SubmitReview \<and> comments s \<noteq> []
           \<and> e = POST (reviews_url s) (review_payload (comments s)))
     \<and> reviews_url (snd (run_call s c)) = reviews_url s"
proof (cases c)
  case (ReportLine commit f p m)
  then show ?thesis
    by (simp add: review_report_line_calls get_comments_calls)
next
  case SubmitReview
  then show ?thesis
    by (simp add: submit_review_calls)
qed

lemma run_calls_calls:
  "\<exists>new. calls (requester (snd (run_calls s cs))) = calls (requester s) @ new
     \<and> (\<forall>e \<in> set new. is_post e \<longrightarrow>
           (\<exists>pending. pending \<noteq> [] \<and> e = POST (reviews_url s) (review_payload pending)))
     \<and> (SubmitReview \<notin> set cs \<longrightarrow> filter is_post new = [])"
proof (induction cs arbitrary: s)
  case Nil
  show ?case by simp
next
  case (Cons c cs)
  let ?s1 = "snd (run_call s c)"
  obtain n1 where n1: "calls (requester ?s1) = calls (requester s) @ n1"
    and p1: "\<forall>e \<in> set n1. is_post e \<longrightarrow>
           c = SubmitReview \<and> comments s \<noteq> []
           \<and> e = POST (reviews_url s) (review_payload (comments s))"
    and u1: "reviews_url ?s1 = reviews_url s"
    using run_call_calls [of s c] by blast
  obtain n2 where n2: "calls (requester (snd (run_calls ?s1 cs))) = calls (requester ?s1) @ n2"
    and p2: "\<forall>e \<in> set n2. is_post e \<longrightarrow>
           (\<exists>pending. pending \<noteq> [] \<and> e = POST (reviews_url ?s1) (review_payload pending))"
    and q2: "SubmitReview \<notin> set cs \<longrightarrow> filter is_post n2 = []"
    using Cons.IH [of ?s1] by blast
  have a: "calls (requester (snd (run_calls s (c # cs)))) = calls (requester s) @ (n1 @ n2)"
    using n1 n2 by (simp add: split_beta)
  have b: "\<forall>e \<in> set (n1 @ n2). is_post e \<longrightarrow>
           (\<exists>pending. pending \<noteq> [] \<and> e = POST (reviews_url s) (review_payload pending))"
    using p1 p2 u1 by auto
  have c: "SubmitReview \<notin> set (c # cs) \<longrightarrow> filter is_post (n1 @ n2) = []"
    using p1 q2 by (auto simp add: filter_empty_conv)
  show ?case using a b c by blast
qed

lemma run_calls_results:
  "list_all2 (\<lambda>c r. c \<noteq> SubmitReview \<longrightarrow> r = None) cs (fst (run_calls s cs))"
proof (induction cs arbitrary: s)
  case Nil
  show ?case by simp
next
  case (Cons c cs)
  have "c \<noteq> SubmitReview \<longrightarrow> fst (run_call s c) = None"
    by (cases c) (simp_all add: review_report_line_fst)
  then show ?case
    using Cons.IH [of "snd (run_call s c)"] by (simp add: split_beta)
qed

section \<open>The deduplicator\<close>

text \<open>
  Claim C2. \<open>clean_already_reported\<close> scans the existing comments in order. The first
  comment whose path is the file name, whose position is the given position and whose
  author's login is the requester's username decides the result: the candidate messages that
  do not occur as a substring of that one comment's body, and no later comment is looked
  at. If no comment passes the test, the candidate messages come back unchanged. (The first
  such comment is \<open>find\<close> of the test; \<open>sublist m b\<close> says \<open>b = ps @ m @ ss\<close> for some
  \<open>ps\<close>, \<open>ss\<close>.)
\<close>

theorem clean_already_reported_first_match:
  "clean_already_reported self cs file_name pos (MsgList ms) =
     (case find (\<lambda>c. path c = file_name \<and> position c = pos
                      \<and> user_login c = username (requester self)) cs of
        None \<Rightarrow> MsgList ms
      | Some c \<Rightarrow> MsgList (filter (\<lambda>m. \<not> sublist m (body c)) ms))"
  by (simp add: clean_already_reported_def clean_loop_find str_contains_sublist
      split: option.splits)

text \<open>The test \<open>test_clean_already_reported\<close>: two comments pass the test, the first one
  decides.\<close>

theorem clean_already_reported_first_match_witness:
  "clean_already_reported
     (GitHubReporter_init (mock_requester \<lparr>status_code = 200, json = []\<rparr>)
        ''api.github.com'' ''test-repo'')
     [comment_out, comment_different] ''foo.py'' 2
     (MsgList [''Get that out'', ''New message'']) = MsgList [''New message'']"
  by (subst clean_already_reported_first_match)
     (simp add: GitHubReporter_init_def mock_requester_def comment_out_def
        comment_different_def sublist_code prefix_code)

text \<open>
  Claim C9. On a list of messages \<open>clean_already_reported\<close> returns a list that is an
  order-preserving sublist of its input (\<open>subseq\<close>), and applying it again to its own
  result, with the same comments, file name and position, changes nothing. Hence
  \<open>CommitReporter.report_line\<close>, which deduplicates once itself and once more inside
  \<open>get_payload\<close>, does on a list what it would do with the single deduplication of
  \<open>get_payload\<close>: the same result and the same final state.
\<close>

theorem clean_already_reported_idempotent:
  "(\<exists>ms'. clean_already_reported self cs file_name pos (MsgList ms) = MsgList ms'
           \<and> subseq ms' ms)
   \<and> clean_already_reported self cs file_name pos
        (clean_already_reported self cs file_name pos (MsgList ms))
      = clean_already_reported self cs file_name pos (MsgList ms)
   \<and> CommitReporter_report_line self commit file_name pos (MsgList ms)
      = CommitReporter_report_line_passing self commit file_name pos (MsgList ms)"
proof (intro conjI)
  show "\<exists>ms'. clean_already_reported self cs file_name pos (MsgList ms) = MsgList ms'
          \<and> subseq ms' ms"
    by (simp add: clean_already_reported_def clean_loop_list)
  show "clean_already_reported self cs file_name pos
        (clean_already_reported self cs file_name pos (MsgList ms))
      = clean_already_reported self cs file_name pos (MsgList ms)"
    by (simp add: clean_already_reported_def clean_loop_idem)
  show "CommitReporter_report_line self commit file_name pos (MsgList ms)
      = CommitReporter_report_line_passing self commit file_name pos (MsgList ms)"
  proof -
    let ?u = "commit_report_url self commit"
    let ?s1 = "snd (get_comments self ?u)"
    have a: "clean_already_reported ?s1 (fst (get_comments self ?u)) file_name pos (MsgList ms)
             = clean_loop (username (requester ?s1)) (priv_comments ?s1) file_name pos
                 (MsgList ms)"
      by (simp add: clean_already_reported_def get_comments_fst)
    have b: "get_payload ?s1 ?u c k file_name pos
               (clean_already_reported ?s1 (fst (get_comments self ?u)) file_name pos
                  (MsgList ms))
             = get_payload ?s1 ?u c k file_name pos (MsgList ms)" for c k
      unfolding a by (rule get_payload_prefilter)
    show ?thesis
      unfolding CommitReporter_report_line_def CommitReporter_report_line_passing_def Let_def
        split_beta b ..
  qed
qed

theorem clean_already_reported_idempotent_witness:
  "clean_already_reported (cached_reporter []) [comment_out, comment_different] ''foo.py'' 2
     (MsgList [''Get that out'', ''New message'']) = MsgList [''New message'']
   \<and> clean_already_reported (cached_reporter []) [comment_out, comment_different] ''foo.py'' 2
       (clean_already_reported (cached_reporter []) [comment_out, comment_different] ''foo.py'' 2
          (MsgList [''Get that out'', ''New message'']))
     = clean_already_reported (cached_reporter []) [comment_out, comment_different] ''foo.py'' 2
          (MsgList [''Get that out'', ''New message''])
   \<and> CommitReporter_report_line (cached_reporter [comment_out]) ''sha'' ''foo.py'' 2
        (MsgList [''Get that out'', ''New message''])
     = CommitReporter_report_line_passing (cached_reporter [comment_out]) ''sha'' ''foo.py'' 2
        (MsgList [''Get that out'', ''New message''])"
proof (intro conjI)
  show "clean_already_reported (cached_reporter []) [comment_out, comment_different] ''foo.py'' 2
     (MsgList [''Get that out'', ''New message'']) = MsgList [''New message'']"
    by (simp add: run_defs prefix_code)
qed (rule clean_already_reported_idempotent [THEN conjunct2, THEN conjunct1]
          clean_already_reported_idempotent [THEN conjunct2, THEN conjunct2])+

section \<open>A single string handed to \<open>CommitReporter.report_line\<close>\<close>

text \<open>
  Claim C10. \<open>CommitReporter.report_line\<close> is called with a single string \<open>m\<close> as its
  message, and one of the existing comments (those \<open>get_comments\<close> returns for the commit's
  URL) passes the test on file name, position and username; let \<open>c\<close> be the first. Then the
  deduplication before \<open>get_payload\<close> runs over the characters of \<open>m\<close>: what
  \<open>get_payload\<close> receives is the list of the one-character strings of \<open>m\<close> that do not
  occur in the body of \<open>c\<close>, not the one-element list \<open>[m]\<close>.
\<close>

theorem report_line_str_by_character:
  assumes "find (\<lambda>c. path c = file_name \<and> position c = pos
                      \<and> user_login c = username (requester self))
             (fst (get_comments self (commit_report_url self commit))) = Some c"
  shows "clean_already_reported self (fst (get_comments self (commit_report_url self commit)))
           file_name pos (MsgStr m)
         = MsgList (map (\<lambda>ch. [ch]) (filter (\<lambda>ch. ch \<notin> set (body c)) m))
       \<and> CommitReporter_report_line self commit file_name pos (MsgStr m)
         = CommitReporter_report_line_passing self commit file_name pos
             (MsgList (map (\<lambda>ch. [ch]) (filter (\<lambda>ch. ch \<notin> set (body c)) m)))"
proof -
  have "clean_loop (username (requester self))
          (fst (get_comments self (commit_report_url self commit))) file_name pos (MsgStr m)
        = MsgList (map (\<lambda>ch. [ch]) (filter (\<lambda>ch. ch \<notin> set (body c)) m))"
    using assms by (simp add: clean_loop_find filter_map comp_def str_contains_char)
  then show ?thesis
    by (simp add: report_line_passing clean_already_reported_def)
qed

text \<open>The message \<open>"test"\<close> against the comment \<open>"Get that out"\<close>: only \<open>s\<close> does not
  occur in the body, and the comment that is posted is \<open>"* s\n"\<close>.\<close>

theorem report_line_str_by_character_witness:
  "CommitReporter_report_line (cached_reporter [comment_out]) ''sha'' ''foo.py'' 2 (MsgStr ''test'')
     = CommitReporter_report_line_passing (cached_reporter [comment_out]) ''sha'' ''foo.py'' 2
         (MsgList [''s''])
   \<and> calls (requester (snd (CommitReporter_report_line (cached_reporter [comment_out]) ''sha''
        ''foo.py'' 2 (MsgStr ''test''))))
     = [POST ''https://api.github.com/repos/foo/bar/commits/sha/comments''
          [(''body'', JStr [CHR ''*'', CHR '' '', CHR ''s'', CHR 0x0A]), (''path'', JStr ''foo.py''),
           (''position'', JInt 2), (''commit_sha'', JStr ''sha'')]]"
proof -
  have h: "find (\<lambda>c. path c = ''foo.py'' \<and> position c = 2
                      \<and> user_login c = username (requester (cached_reporter [comment_out])))
             (fst (get_comments (cached_reporter [comment_out])
                (commit_report_url (cached_reporter [comment_out]) ''sha''))) = Some comment_out"
    by (simp add: run_defs)
  have c: "calls (requester (snd (CommitReporter_report_line_passing
        (cached_reporter [comment_out]) ''sha'' ''foo.py'' 2 (MsgList [''s'']))))
     = [POST ''https://api.github.com/repos/foo/bar/commits/sha/comments''
          [(''body'', JStr [CHR ''*'', CHR '' '', CHR ''s'', CHR 0x0A]), (''path'', JStr ''foo.py''),
           (''position'', JInt 2), (''commit_sha'', JStr ''sha'')]]"
    by (simp add: CommitReporter_report_line_passing_def run_defs prefix_code)
  show ?thesis
    using report_line_str_by_character [OF h, of "''test''"] c
    by (simp add: comment_out_def)
qed

section \<open>The payload builder\<close>

text \<open>
  What \<open>get_payload\<close> computes. It returns \<open>None\<close> exactly when no candidate message
  survives the deduplication. Otherwise it returns a payload whose \<open>body\<close> is the
  concatenation, in the order of the input, of the surviving messages, each prefixed with
  \<open>"* "\<close> and followed by a line break, with the given \<open>path\<close> and \<open>position\<close> (when the
  commit field name is none of these three keys). The survivors are the candidates that are
  not a substring of the body of the first existing comment at the same path and position
  by the acting identity; a message identical to the body of that first comment gives
  \<open>None\<close>.
\<close>

lemma get_payload_null_iff_nothing_survives:
  "(fst (get_payload self url commit commit_key file_name pos message) = None
      \<longleftrightarrow> survivors self url file_name pos message = [])
   \<and> (survivors self url file_name pos message \<noteq> []
        \<and> commit_key \<notin> {Some ''body'', Some ''path'', Some ''position''} \<longrightarrow>
      (\<exists>pl. fst (get_payload self url commit commit_key file_name pos message) = Some pl
         \<and> map_of pl ''body'' = Some (JStr (bullet_body (survivors self url file_name pos message)))
         \<and> map_of pl ''path'' = Some (JStr file_name)
         \<and> map_of pl ''position'' = Some (JInt pos)))
   \<and> survivors self url file_name pos message
      = (case find (\<lambda>c. path c = file_name \<and> position c = pos
                         \<and> user_login c = username (requester self))
                (fst (get_comments self url)) of
           None \<Rightarrow> iter_msg (normalize_message message)
         | Some c \<Rightarrow> filter (\<lambda>m. \<not> sublist m (body c)) (iter_msg (normalize_message message)))
   \<and> (\<forall>c. find (\<lambda>c. path c = file_name \<and> position c = pos
                      \<and> user_login c = username (requester self))
             (fst (get_comments self url)) = Some c
          \<and> iter_msg (normalize_message message) = [body c]
        \<longrightarrow> fst (get_payload self url commit commit_key file_name pos message) = None)"
proof (intro conjI allI impI)
  show "(fst (get_payload self url commit commit_key file_name pos message) = None)
          = (survivors self url file_name pos message = [])"
    by (simp add: get_payload_fst)
  show "survivors self url file_name pos message
      = (case find (\<lambda>c. path c = file_name \<and> position c = pos
                         \<and> user_login c = username (requester self))
                (fst (get_comments self url)) of
           None \<Rightarrow> iter_msg (normalize_message message)
         | Some c \<Rightarrow> filter (\<lambda>m. \<not> sublist m (body c)) (iter_msg (normalize_message message)))"
    by (rule survivors_find)
  show "fst (get_payload self url commit commit_key file_name pos message) = None"
    if "find (\<lambda>c. path c = file_name \<and> position c = pos
                      \<and> user_login c = username (requester self))
             (fst (get_comments self url)) = Some c
          \<and> iter_msg (normalize_message message) = [body c]" for c
    using that by (simp add: get_payload_fst survivors_find)
  show "\<exists>pl. fst (get_payload self url commit commit_key file_name pos message) = Some pl
         \<and> map_of pl ''body'' = Some (JStr (bullet_body (survivors self url file_name pos message)))
         \<and> map_of pl ''path'' = Some (JStr file_name)
         \<and> map_of pl ''position'' = Some (JInt pos)"
    if "survivors self url file_name pos message \<noteq> []
        \<and> commit_key \<notin> {Some ''body'', Some ''path'', Some ''position''}"
    using that by (auto simp add: get_payload_fst update_conv' split: option.splits)
qed

text \<open>The test \<open>test_pr_already_reported\<close>, and a report of which two messages
  survive.\<close>

lemma get_payload_null_iff_nothing_survives_example:
  "fst (get_payload (cached_reporter [comment_out])
          ''https://api.github.com/repos/justinabrahms/imhotep/pulls/10/comments''
          (Some ''sha'') (Some ''commit_id'') ''foo.py'' 2 (MsgStr ''Get that out'')) = None
   \<and> (\<exists>pl. fst (get_payload (cached_reporter [comment_out, comment_different])
                  ''https://api.github.com/repos/justinabrahms/imhotep/pulls/10/comments''
                  (Some ''sha'') (Some ''commit_id'') ''foo.py'' 2
                  (MsgList [''Get that out'', ''New message'', ''Another''])) = Some pl
          \<and> map_of pl ''body'' = Some (JStr ''* New message\<newline>* Another\<newline>'')
          \<and> map_of pl ''path'' = Some (JStr ''foo.py'')
          \<and> map_of pl ''position'' = Some (JInt 2))"
proof (intro conjI)
  let ?url = "''https://api.github.com/repos/justinabrahms/imhotep/pulls/10/comments''"
  have h: "find (\<lambda>c. path c = ''foo.py'' \<and> position c = 2
                      \<and> user_login c = username (requester (cached_reporter [comment_out])))
             (fst (get_comments (cached_reporter [comment_out]) ?url)) = Some comment_out
           \<and> iter_msg (normalize_message (MsgStr ''Get that out'')) = [body comment_out]"
    by (simp add: run_defs)
  show "fst (get_payload (cached_reporter [comment_out]) ?url
          (Some ''sha'') (Some ''commit_id'') ''foo.py'' 2 (MsgStr ''Get that out'')) = None"
    using get_payload_null_iff_nothing_survives
      [THEN conjunct2, THEN conjunct2, THEN conjunct2, rule_format, OF h] .
  have s: "survivors (cached_reporter [comment_out, comment_different]) ?url ''foo.py'' 2
             (MsgList [''Get that out'', ''New message'', ''Another''])
           = [''New message'', ''Another'']"
    by (simp add: survivors_def run_defs prefix_code)
  have k: "survivors (cached_reporter [comment_out, comment_different]) ?url ''foo.py'' 2
             (MsgList [''Get that out'', ''New message'', ''Another'']) \<noteq> []
           \<and> Some ''commit_id'' \<notin> {Some ''body'', Some ''path'', Some ''position''}"
    by (simp add: s)
  show "\<exists>pl. fst (get_payload (cached_reporter [comment_out, comment_different]) ?url
                  (Some ''sha'') (Some ''commit_id'') ''foo.py'' 2
                  (MsgList [''Get that out'', ''New message'', ''Another''])) = Some pl
          \<and> map_of pl ''body'' = Some (JStr ''* New message\<newline>* Another\<newline>'')
          \<and> map_of pl ''path'' = Some (JStr ''foo.py'')
          \<and> map_of pl ''position'' = Some (JInt 2)"
    using get_payload_null_iff_nothing_survives
      [THEN conjunct2, THEN conjunct1, rule_format, OF k, of "Some ''sha''"]
    by (simp add: s bullet_body_def)
qed

text \<open>
  Claim C3. \<open>get_payload\<close> is to return \<open>None\<close> exactly when every candidate message is
  already reported, and otherwise the payload of the surviving messages; in particular,
  reporting a message identical to the body of an existing comment at the same path and
  position by the acting identity is to yield \<open>None\<close>. The docstring of \<open>get_payload\<close> says
  the same: it checks whether there is already an identical comment, and if there is,
  \<open>None\<close> is returned. The code does not do this when the identical comment is not the
  first one at that path and position by that author, because \<open>clean_already_reported\<close>
  returns at the first such comment. With \<open>"Different comment"\<close> stored before
  \<open>"Get that out"\<close>, reporting \<open>"Get that out"\<close> again builds a payload. With the two
  stored bodies in the form the reporter itself posts, the body of the payload that is
  built is, character for character, the body of the second stored comment.
\<close>

theorem get_payload_later_duplicate_not_null:
  "comment_out \<in> set (fst (get_comments (cached_reporter [comment_different, comment_out])
        ''https://api.github.com/repos/justinabrahms/imhotep/pulls/10/comments''))
   \<and> path comment_out = ''foo.py'' \<and> position comment_out = 2
   \<and> user_login comment_out
       = username (requester (cached_reporter [comment_different, comment_out]))
   \<and> body comment_out = ''Get that out''
   \<and> fst (get_payload (cached_reporter [comment_different, comment_out])
        ''https://api.github.com/repos/justinabrahms/imhotep/pulls/10/comments''
        (Some ''sha'') (Some ''commit_id'') ''foo.py'' 2 (MsgStr ''Get that out''))
     = Some [(''body'', JStr ''* Get that out\<newline>''), (''path'', JStr ''foo.py''),
             (''position'', JInt 2), (''commit_id'', JStr ''sha'')]
   \<and> fst (get_payload
        (cached_reporter
           [\<lparr>path = ''foo.py'', position = 2, body = ''* Different comment\<newline>'',
             user_login = ''magicmock''\<rparr>,
            \<lparr>path = ''foo.py'', position = 2, body = ''* Get that out\<newline>'',
             user_login = ''magicmock''\<rparr>])
        ''https://api.github.com/repos/justinabrahms/imhotep/pulls/10/comments''
        (Some ''sha'') (Some ''commit_id'') ''foo.py'' 2 (MsgStr ''Get that out''))
     = Some [(''body'', JStr ''* Get that out\<newline>''), (''path'', JStr ''foo.py''),
             (''position'', JInt 2), (''commit_id'', JStr ''sha'')]"
  by (simp add: run_defs prefix_code)

text \<open>
  Claim C7. When \<open>get_payload\<close> returns a payload: if both the commit and the commit field
  name are given, the payload holds the commit under that name, and its keys are \<open>body\<close>,
  \<open>path\<close>, \<open>position\<close> and that name; if either is \<open>None\<close>, its keys are exactly \<open>body\<close>,
  \<open>path\<close> and \<open>position\<close>. \<open>PRReviewReporter.report_line\<close> calls \<open>get_payload\<close> with both
  \<open>None\<close>, so every payload it appends to the pending review has exactly these three keys.
\<close>

theorem get_payload_commit_field:
  "(\<forall>pl k c. fst (get_payload self url commit commit_key file_name pos message) = Some pl
       \<and> commit_key = Some k \<and> commit = Some c
     \<longrightarrow> map_of pl k = Some (JStr c)
         \<and> set (map fst pl) = {''body'', ''path'', ''position'', k})
   \<and> (\<forall>pl. fst (get_payload self url commit commit_key file_name pos message) = Some pl
       \<and> (commit_key = None \<or> commit = None)
     \<longrightarrow> map fst pl = [''body'', ''path'', ''position''])
   \<and> comments (snd (PRReviewReporter_report_line rv commit' file_name pos message))
      = comments rv @ (case fst (get_payload rv (pr_comments_url rv) None None file_name pos
                                   message) of
                         None \<Rightarrow> [] | Some pl \<Rightarrow> [pl])
   \<and> (\<forall>pl \<in> set (drop (length (comments rv))
                  (comments (snd (PRReviewReporter_report_line rv commit' file_name pos
                                    message)))).
        map fst pl = [''body'', ''path'', ''position''])"
proof (intro conjI allI impI ballI)
  fix pl k c
  assume "fst (get_payload self url commit commit_key file_name pos message) = Some pl
       \<and> commit_key = Some k \<and> commit = Some c"
  then show "map_of pl k = Some (JStr c)"
    and "set (map fst pl) = {''body'', ''path'', ''position'', k}"
    by (auto simp add: get_payload_fst update_conv' split: if_splits)
next
  fix pl
  assume "fst (get_payload self url commit commit_key file_name pos message) = Some pl
       \<and> (commit_key = None \<or> commit = None)"
  then show "map fst pl = [''body'', ''path'', ''position'']"
    by (auto simp add: get_payload_fst split: if_splits option.splits)
next
  show c: "comments (snd (PRReviewReporter_report_line rv commit' file_name pos message))
      = comments rv @ (case fst (get_payload rv (pr_comments_url rv) None None file_name pos
                                   message) of
                         None \<Rightarrow> [] | Some pl \<Rightarrow> [pl])"
    by (simp add: PRReviewReporter_report_line_def split_beta get_payload_snd gc_defs
        get_payload_fst split: option.splits)
  fix pl
  assume "pl \<in> set (drop (length (comments rv))
                  (comments (snd (PRReviewReporter_report_line rv commit' file_name pos
                                    message))))"
  then show "map fst pl = [''body'', ''path'', ''position'']"
    unfolding c by (auto simp add: get_payload_fst split: if_splits option.splits)
qed

text \<open>A commit comment carries \<open>commit_sha\<close>; the first pending entry of the test
  \<open>test_pr_review_reporter_should_add_comments\<close> carries no commit.\<close>

theorem get_payload_commit_field_witness:
  "map_of [(''body'', JStr ''* test\<newline>''), (''path'', JStr ''setup.py''), (''position'', JInt 0),
           (''commit_sha'', JStr ''sha'')] ''commit_sha'' = Some (JStr ''sha'')
   \<and> fst (get_payload (cached_reporter [])
            ''https://api.github.com/repos/foo/bar/commits/sha/comments''
            (Some ''sha'') (Some ''commit_sha'') ''setup.py'' 0 (MsgStr ''test''))
     = Some [(''body'', JStr ''* test\<newline>''), (''path'', JStr ''setup.py''),
             (''position'', JInt 0), (''commit_sha'', JStr ''sha'')]
   \<and> map fst [(''body'', JStr ''* lorem\<newline>''), (''path'', JStr ''script.py''),
               (''position'', JInt 0)] = [''body'', ''path'', ''position'']
   \<and> comments (snd (PRReviewReporter_report_line
        (PRReviewReporter_init (mock_requester \<lparr>status_code = 200, json = []\<rparr>)
           ''github.com'' ''justinabrahms/imhotep'' ''10'')
        ''sha'' ''script.py'' 0 (MsgStr ''lorem'')))
     = [[(''body'', JStr ''* lorem\<newline>''), (''path'', JStr ''script.py''),
         (''position'', JInt 0)]]"
proof -
  let ?pl = "[(''body'', JStr ''* test\<newline>''), (''path'', JStr ''setup.py''),
              (''position'', JInt 0), (''commit_sha'', JStr ''sha'')]"
  let ?rv = "PRReviewReporter_init (mock_requester \<lparr>status_code = 200, json = []\<rparr>)
               ''github.com'' ''justinabrahms/imhotep'' ''10''"
  let ?pl' = "[(''body'', JStr ''* lorem\<newline>''), (''path'', JStr ''script.py''),
               (''position'', JInt 0)]"
  have g: "fst (get_payload (cached_reporter [])
            ''https://api.github.com/repos/foo/bar/commits/sha/comments''
            (Some ''sha'') (Some ''commit_sha'') ''setup.py'' 0 (MsgStr ''test'')) = Some ?pl"
    by (simp add: run_defs)
  then have h: "fst (get_payload (cached_reporter [])
            ''https://api.github.com/repos/foo/bar/commits/sha/comments''
            (Some ''sha'') (Some ''commit_sha'') ''setup.py'' 0 (MsgStr ''test'')) = Some ?pl
         \<and> Some ''commit_sha'' = Some ''commit_sha'' \<and> Some ''sha'' = Some ''sha''"
    by simp
  have a: "map_of ?pl ''commit_sha'' = Some (JStr ''sha'')"
    using get_payload_commit_field [THEN conjunct1, rule_format, OF h] by (rule conjunct1)
  have c: "comments (snd (PRReviewReporter_report_line ?rv ''sha'' ''script.py'' 0
             (MsgStr ''lorem''))) = [?pl']"
    by (simp add: run_defs)
  have "?pl' \<in> set (drop (length (comments ?rv))
           (comments (snd (PRReviewReporter_report_line ?rv ''sha'' ''script.py'' 0
              (MsgStr ''lorem'')))))"
    unfolding c by (simp add: run_defs)
  then have b: "map fst ?pl' = [''body'', ''path'', ''position'']"
    using get_payload_commit_field
      [THEN conjunct2, THEN conjunct2, THEN conjunct2, rule_format] by blast
  show ?thesis using a g b c by (intro conjI)
qed

section \<open>The comment cache\<close>

text \<open>
  Claim C1, as amended. The only fetch-state \<open>get_comments\<close> keeps is the stored result
  itself: a call issues one transport GET when the stored list is empty, and none when it is
  not. Once a GET has succeeded (status below 400) with a non-empty body, no later call of
  \<open>get_comments\<close> on that reporter, for whatever target, issues a GET. After a failed GET or
  an empty body the cache is still empty, and the next call issues a GET again.
\<close>

theorem get_comments_fetches_while_empty:
  "calls (requester (snd (get_comments self url)))
     = (if priv_comments self = [] then calls (requester self) @ [GET url]
        else calls (requester self))
   \<and> (priv_comments self \<noteq> [] \<longrightarrow>
        get_comments self url = (priv_comments self, self)
        \<and> calls (requester (get_comments_each self urls)) = calls (requester self))
   \<and> (priv_comments self = []
        \<and> status_code (get_fn (requester self) (calls (requester self)) url) < 400
        \<and> json (get_fn (requester self) (calls (requester self)) url) \<noteq> [] \<longrightarrow>
        calls (requester (get_comments_each self (url # urls)))
          = calls (requester self) @ [GET url])
   \<and> (priv_comments self = []
        \<and> (status_code (get_fn (requester self) (calls (requester self)) url) \<ge> 400
           \<or> json (get_fn (requester self) (calls (requester self)) url) = []) \<longrightarrow>
        priv_comments (snd (get_comments self url)) = []
        \<and> calls (requester (get_comments_each self [url, url']))
          = calls (requester self) @ [GET url, GET url'])"
proof (intro conjI impI)
  show "calls (requester (snd (get_comments self url)))
     = (if priv_comments self = [] then calls (requester self) @ [GET url]
        else calls (requester self))"
    by (rule get_comments_calls)
  show "get_comments self url = (priv_comments self, self)" if "priv_comments self \<noteq> []"
    using that by (rule get_comments_cached)
  show "calls (requester (get_comments_each self urls)) = calls (requester self)"
    if "priv_comments self \<noteq> []"
    using that by (simp add: get_comments_each_cached)
  show "calls (requester (get_comments_each self (url # urls)))
          = calls (requester self) @ [GET url]"
    if "priv_comments self = []
        \<and> status_code (get_fn (requester self) (calls (requester self)) url) < 400
        \<and> json (get_fn (requester self) (calls (requester self)) url) \<noteq> []"
  proof -
    have "priv_comments (snd (get_comments self url)) \<noteq> []"
      using that by (simp add: get_comments_priv)
    then show ?thesis
      using that by (simp add: get_comments_each_cached get_comments_calls)
  qed
  assume e: "priv_comments self = []
        \<and> (status_code (get_fn (requester self) (calls (requester self)) url) \<ge> 400
           \<or> json (get_fn (requester self) (calls (requester self)) url) = [])"
  then show p: "priv_comments (snd (get_comments self url)) = []"
    by (auto simp add: get_comments_priv)
  show "calls (requester (get_comments_each self [url, url']))
          = calls (requester self) @ [GET url, GET url']"
    using e p by (simp add: get_comments_calls)
qed

text \<open>A first successful, non-empty fetch; two more calls, one for another target.\<close>

theorem get_comments_fetches_while_empty_witness:
  "calls (requester (get_comments_each
      (GitHubReporter_init (mock_requester \<lparr>status_code = 200, json = [comment_out]\<rparr>)
         ''api.github.com'' ''repo-name'')
      [''example.com'', ''example.com'', ''example.org''])) = [GET ''example.com'']"
proof -
  let ?r = "GitHubReporter_init (mock_requester \<lparr>status_code = 200, json = [comment_out]\<rparr>)
              ''api.github.com'' ''repo-name''"
  have h: "priv_comments ?r = []
        \<and> status_code (get_fn (requester ?r) (calls (requester ?r)) ''example.com'') < 400
        \<and> json (get_fn (requester ?r) (calls (requester ?r)) ''example.com'') \<noteq> []"
    by (simp add: GitHubReporter_init_def mock_requester_def)
  have "calls (requester (get_comments_each ?r
          (''example.com'' # [''example.com'', ''example.org''])))
        = calls (requester ?r) @ [GET ''example.com'']"
    using get_comments_fetches_while_empty
      [THEN conjunct2, THEN conjunct2, THEN conjunct1, rule_format, OF h] .
  then show ?thesis
    by (simp add: GitHubReporter_init_def mock_requester_def)
qed

text \<open>
  Claim C1 as it is written asks for one GET per target however often \<open>get_comments\<close> is
  called, also when the remote collection is empty. The transport answers 200 with an empty
  list: two calls for the same target issue two GETs.
\<close>

theorem get_comments_refetches_empty:
  "status_code (get_fn (requester (cached_reporter [])) [] ''example.com'') = 200
   \<and> json (get_fn (requester (cached_reporter [])) [] ''example.com'') = []
   \<and> calls (requester (get_comments_each (cached_reporter []) [''example.com'', ''example.com'']))
     = [GET ''example.com'', GET ''example.com'']"
  by (simp add: run_defs)

text \<open>
  Claim C8. When the cache is empty, so that \<open>get_comments\<close> issues its GET, and the GET
  answers with a status of 400 or more: the call returns the empty cache, the cache stays
  empty (the body of the error response is logged and not stored), the error is logged
  after the debug line, and the only other change is the recorded GET. The function has no
  failing branch.
\<close>

theorem get_comments_error:
  assumes "priv_comments self = []"
    and "status_code (get_fn (requester self) (calls (requester self)) url) \<ge> 400"
  shows "get_comments self url =
     ([], self\<lparr>log_records := log_records self @
                 [(DEBUG, ''PR Request: %s'', [AStr url]),
                  (ERROR, ''Error requesting comments from github. %s'',
                     [AComments (json (get_fn (requester self) (calls (requester self)) url))])],
               requester := (requester self)\<lparr>calls := calls (requester self) @ [GET url]\<rparr>\<rparr>)"
  using assms by (simp add: gc_defs)

text \<open>The test \<open>test_get_comments_error\<close>.\<close>

theorem get_comments_error_witness:
  "fst (get_comments
          (GitHubReporter_init (mock_requester \<lparr>status_code = 400, json = [comment_out]\<rparr>)
             ''api.github.com'' ''test-repo'') ''example.com'') = []
   \<and> priv_comments (snd (get_comments
          (GitHubReporter_init (mock_requester \<lparr>status_code = 400, json = [comment_out]\<rparr>)
             ''api.github.com'' ''test-repo'') ''example.com'')) = []
   \<and> log_records (snd (get_comments
          (GitHubReporter_init (mock_requester \<lparr>status_code = 400, json = [comment_out]\<rparr>)
             ''api.github.com'' ''test-repo'') ''example.com''))
     = [(DEBUG, ''PR Request: %s'', [AStr ''example.com'']),
        (ERROR, ''Error requesting comments from github. %s'', [AComments [comment_out]])]"
proof -
  let ?r = "GitHubReporter_init (mock_requester \<lparr>status_code = 400, json = [comment_out]\<rparr>)
              ''api.github.com'' ''test-repo''"
  have e: "priv_comments ?r = []"
    by (simp add: GitHubReporter_init_def)
  have f: "status_code (get_fn (requester ?r) (calls (requester ?r)) ''example.com'') \<ge> 400"
    by (simp add: GitHubReporter_init_def mock_requester_def)
  show ?thesis
    unfolding get_comments_error [OF e f]
    by (simp add: GitHubReporter_init_def mock_requester_def)
qed

section \<open>Transport calls of one \<open>report_line\<close>\<close>

text \<open>
  The transport calls one invocation of \<open>report_line\<close> adds. At most one GET on a
  \<open>PRReporter\<close> and on a \<open>PRReviewReporter\<close>, and at most one POST on a \<open>CommitReporter\<close>
  and on a \<open>PRReporter\<close> (none on a \<open>PRReviewReporter\<close>). On a \<open>CommitReporter\<close>: no GET
  when the cache is filled, one when its first \<open>get_comments\<close> fills the cache, and two
  when the cache is still empty after the first \<open>get_comments\<close>, since the method calls
  \<open>get_comments\<close> itself and once more through \<open>get_payload\<close>.
\<close>

lemma report_line_transport_calls:
  "count_gets (calls (requester (snd (PRReporter_report_line pr commit file_name pos message))))
     \<le> count_gets (calls (requester pr)) + 1
   \<and> count_posts (calls (requester (snd (PRReporter_report_line pr commit file_name pos message))))
     \<le> count_posts (calls (requester pr)) + 1
   \<and> count_gets (calls (requester (snd (PRReviewReporter_report_line rv commit file_name pos
                                            message))))
     \<le> count_gets (calls (requester rv)) + 1
   \<and> count_posts (calls (requester (snd (PRReviewReporter_report_line rv commit file_name pos
                                             message))))
     = count_posts (calls (requester rv))
   \<and> count_posts (calls (requester (snd (CommitReporter_report_line cr commit file_name pos
                                             message))))
     \<le> count_posts (calls (requester cr)) + 1
   \<and> count_gets (calls (requester (snd (CommitReporter_report_line cr commit file_name pos
                                            message))))
     = count_gets (calls (requester cr))
       + (if priv_comments cr \<noteq> [] then 0
          else if priv_comments (snd (get_comments cr (commit_report_url cr commit))) \<noteq> [] then 1
          else 2)"
proof (intro conjI)
  show "count_gets (calls (requester (snd (PRReporter_report_line pr commit file_name pos message))))
     \<le> count_gets (calls (requester pr)) + 1"
    by (simp add: pr_report_line_calls get_comments_calls split: option.splits)
  show "count_posts (calls (requester (snd (PRReporter_report_line pr commit file_name pos message))))
     \<le> count_posts (calls (requester pr)) + 1"
    by (simp add: pr_report_line_calls get_comments_calls split: option.splits)
  show "count_gets (calls (requester (snd (PRReviewReporter_report_line rv commit file_name pos
                                            message))))
     \<le> count_gets (calls (requester rv)) + 1"
    by (simp add: review_report_line_calls get_comments_calls)
  show "count_posts (calls (requester (snd (PRReviewReporter_report_line rv commit file_name pos
                                             message))))
     = count_posts (calls (requester rv))"
    by (simp add: review_report_line_calls get_comments_calls)
  show "count_posts (calls (requester (snd (CommitReporter_report_line cr commit file_name pos
                                             message))))
     \<le> count_posts (calls (requester cr)) + 1"
    by (simp add: commit_report_line_calls get_comments_calls split: option.splits)
  show "count_gets (calls (requester (snd (CommitReporter_report_line cr commit file_name pos
                                            message))))
     = count_gets (calls (requester cr))
       + (if priv_comments cr \<noteq> [] then 0
          else if priv_comments (snd (get_comments cr (commit_report_url cr commit))) \<noteq> [] then 1
          else 2)"
    by (simp add: commit_report_line_calls get_comments_calls get_comments_priv
        split: option.splits)
qed

text \<open>The tests \<open>test_pr_url\<close> and \<open>test_commit_url\<close>, with a transport that answers 200
  and one stored comment at another position.\<close>

lemma report_line_transport_calls_example:
  "count_gets (calls (requester (snd (PRReporter_report_line
      (PRReporter_init (mock_requester \<lparr>status_code = 200, json = [comment_out]\<rparr>)
         ''github.com'' ''justinabrahms/imhotep'' ''10'')
      ''sha'' ''setup.py'' 0 (MsgStr ''test'')))))
     \<le> count_gets (calls (requester
          (PRReporter_init (mock_requester \<lparr>status_code = 200, json = [comment_out]\<rparr>)
             ''github.com'' ''justinabrahms/imhotep'' ''10''))) + 1
   \<and> calls (requester (snd (PRReporter_report_line
        (PRReporter_init (mock_requester \<lparr>status_code = 200, json = [comment_out]\<rparr>)
           ''github.com'' ''justinabrahms/imhotep'' ''10'')
        ''sha'' ''setup.py'' 0 (MsgStr ''test''))))
     = [GET ''https://api.github.com/repos/justinabrahms/imhotep/pulls/10/comments'',
        POST ''https://api.github.com/repos/justinabrahms/imhotep/pulls/10/comments''
          [(''body'', JStr ''* test\<newline>''), (''path'', JStr ''setup.py''),
           (''position'', JInt 0), (''commit_id'', JStr ''sha'')]]
   \<and> calls (requester (snd (CommitReporter_report_line
        (GitHubReporter_init (mock_requester \<lparr>status_code = 200, json = [comment_out]\<rparr>)
           ''github.com'' ''foo/bar'')
        ''sha'' ''setup.py'' 0 (MsgStr ''test''))))
     = [GET ''https://api.github.com/repos/foo/bar/commits/sha/comments'',
        POST ''https://api.github.com/repos/foo/bar/commits/sha/comments''
          [(''body'', JStr ''* test\<newline>''), (''path'', JStr ''setup.py''),
           (''position'', JInt 0), (''commit_sha'', JStr ''sha'')]]"
proof (intro conjI)
  show "count_gets (calls (requester (snd (PRReporter_report_line
      (PRReporter_init (mock_requester \<lparr>status_code = 200, json = [comment_out]\<rparr>)
         ''github.com'' ''justinabrahms/imhotep'' ''10'')
      ''sha'' ''setup.py'' 0 (MsgStr ''test'')))))
     \<le> count_gets (calls (requester
          (PRReporter_init (mock_requester \<lparr>status_code = 200, json = [comment_out]\<rparr>)
             ''github.com'' ''justinabrahms/imhotep'' ''10''))) + 1"
    by (rule report_line_transport_calls [THEN conjunct1])
qed (simp_all add: run_defs)

text \<open>
  Claim C6. One invocation of \<open>report_line\<close>, on any of the three strategies, is to perform
  at most one transport GET (the cache fill) and at most one transport POST. A
  \<open>PRReporter\<close> whose transport answers 200 with an empty list does so: one GET, one POST.
  A \<open>CommitReporter\<close> at the same transport performs two GETs before its POST: its
  \<open>report_line\<close> calls \<open>get_comments\<close> and \<open>clean_already_reported\<close> itself (lines 99 and
  100) before \<open>get_payload\<close> does both again, which neither other \<open>report_line\<close> does.
\<close>

theorem commit_report_line_two_gets:
  "calls (requester (cached_reporter [])) = []
   \<and> calls (requester (snd (CommitReporter_report_line (cached_reporter []) ''sha'' ''setup.py'' 0
                              (MsgStr ''test''))))
     = [GET ''https://api.github.com/repos/foo/bar/commits/sha/comments'',
        GET ''https://api.github.com/repos/foo/bar/commits/sha/comments'',
        POST ''https://api.github.com/repos/foo/bar/commits/sha/comments''
          [(''body'', JStr ''* test\<newline>''), (''path'', JStr ''setup.py''),
           (''position'', JInt 0), (''commit_sha'', JStr ''sha'')]]
   \<and> count_gets (calls (requester (snd (CommitReporter_report_line (cached_reporter []) ''sha''
                                          ''setup.py'' 0 (MsgStr ''test''))))) = 2
   \<and> calls (requester (snd (PRReporter_report_line
        (PRReporter_init (mock_requester \<lparr>status_code = 200, json = []\<rparr>)
           ''github.com'' ''foo/bar'' ''10'')
        ''sha'' ''setup.py'' 0 (MsgStr ''test''))))
     = [GET ''https://api.github.com/repos/foo/bar/pulls/10/comments'',
        POST ''https://api.github.com/repos/foo/bar/pulls/10/comments''
          [(''body'', JStr ''* test\<newline>''), (''path'', JStr ''setup.py''),
           (''position'', JInt 0), (''commit_id'', JStr ''sha'')]]"
  by (simp add: run_defs count_gets_def)

section \<open>The batched review\<close>

text \<open>
  Claim C4. On a \<open>PRReviewReporter\<close>, \<open>report_line\<close> always returns \<open>None\<close> and adds no
  POST to the calls of the transport; when the payload it builds is not \<open>None\<close>, the payload
  is appended to the pending review, which is otherwise unchanged. \<open>submit_review\<close> adds one
  POST when the pending review is not empty, and none when it is empty. Hence, over every
  sequence of calls of the two methods: every \<open>report_line\<close> returned \<open>None\<close>, the calls
  recorded before are unchanged, every POST that was added is a review of a non-empty
  pending sequence sent to the reviews URL, and a sequence without \<open>submit_review\<close> adds no
  POST at all.
\<close>

theorem review_reporter_posts_only_on_submit:
  "fst (PRReviewReporter_report_line rv commit file_name pos message) = None
   \<and> filter is_post (calls (requester (snd (PRReviewReporter_report_line rv commit file_name pos
                                              message))))
     = filter is_post (calls (requester rv))
   \<and> comments (snd (PRReviewReporter_report_line rv commit file_name pos message))
     = comments rv @ (case fst (get_payload rv (pr_comments_url rv) None None file_name pos
                                  message) of
                        None \<Rightarrow> [] | Some pl \<Rightarrow> [pl])
   \<and> calls (requester (snd (submit_review rv)))
     = calls (requester rv)
       @ (if comments rv = [] then []
          else [POST (reviews_url rv) (review_payload (comments rv))])
   \<and> list_all2 (\<lambda>c r. c \<noteq> SubmitReview \<longrightarrow> r = None) cs (fst (run_calls rv cs))
   \<and> (\<exists>new. calls (requester (snd (run_calls rv cs))) = calls (requester rv) @ new
         \<and> (\<forall>e \<in> set new. is_post e \<longrightarrow>
               (\<exists>pending. pending \<noteq> []
                  \<and> e = POST (reviews_url rv) (review_payload pending)))
         \<and> (SubmitReview \<notin> set cs \<longrightarrow> filter is_post new = []))"
proof (intro conjI)
  show "filter is_post (calls (requester (snd (PRReviewReporter_report_line rv commit file_name
                                                 pos message))))
     = filter is_post (calls (requester rv))"
    by (simp add: review_report_line_calls get_comments_calls)
qed (rule review_report_line_fst review_report_line_comments submit_review_calls
          run_calls_results run_calls_calls)+

text \<open>The test \<open>test_pr_review_reporter_should_add_comments\<close>, and a sequence in which
  the first \<open>submit_review\<close> finds nothing pending and the second one posts.\<close>

theorem review_reporter_posts_only_on_submit_witness:
  "fst (PRReviewReporter_report_line review_reporter ''sha'' ''script.py'' 0 (MsgStr ''lorem''))
     = None
   \<and> comments (snd (run_calls review_reporter
        [ReportLine ''sha'' ''script.py'' 0 (MsgStr ''lorem''),
         ReportLine ''sha'' ''script.py'' 1 (MsgStr ''ipsum'')]))
     = [[(''body'', JStr ''* lorem\<newline>''), (''path'', JStr ''script.py''), (''position'', JInt 0)],
        [(''body'', JStr ''* ipsum\<newline>''), (''path'', JStr ''script.py''), (''position'', JInt 1)]]
   \<and> filter is_post (calls (requester (snd (run_calls review_reporter
        [ReportLine ''sha'' ''script.py'' 0 (MsgStr ''lorem''),
         ReportLine ''sha'' ''script.py'' 1 (MsgStr ''ipsum'')])))) = []
   \<and> fst (run_calls review_reporter
        [SubmitReview, ReportLine ''sha'' ''script.py'' 0 (MsgStr ''lorem''), SubmitReview])
     = [None, None, Some \<lparr>status_code = 200, json = JObj []\<rparr>]
   \<and> filter is_post (calls (requester (snd (run_calls review_reporter
        [SubmitReview, ReportLine ''sha'' ''script.py'' 0 (MsgStr ''lorem''), SubmitReview]))))
     = [POST ''https://api.github.com/repos/justinabrahms/imhotep/pulls/10/reviews''
          [(''body'', JStr ''Imhotep detected 1 potential problems with this PR.''),
           (''event'', JStr ''COMMENT''),
           (''comments'', JArr [JObj lorem_payload])]]"
proof (intro conjI)
  show "fst (PRReviewReporter_report_line review_reporter ''sha'' ''script.py'' 0
          (MsgStr ''lorem'')) = None"
    by (rule review_reporter_posts_only_on_submit [THEN conjunct1])
qed (simp_all add: review_reporter_def lorem_payload_def run_defs str_of_nat.simps
       digit_char_def)

text \<open>
  Claim C5. \<open>submit_review\<close> with nothing pending returns \<open>None\<close> and leaves the reporter as
  it was, but for the attribute \<open>pr_reviews_url\<close>, which the method sets first: no call of
  the transport, no log record. With \<open>N > 0\<close> payloads pending it posts once, to
  \<open>https://api.{domain}/repos/{repo}/pulls/{pr}/reviews\<close>, the payload with the body
  \<open>"Imhotep detected N potential problems with this PR."\<close> (\<open>N\<close> in decimal), the event
  \<open>"COMMENT"\<close> and the pending payloads as comments, and it returns the response of the
  transport; the pending review is kept.
\<close>

theorem submit_review_posts_pending:
  "(comments rv = [] \<longrightarrow>
      submit_review rv = (None, rv\<lparr>pr_reviews_url := Some (reviews_url rv)\<rparr>))
   \<and> (comments rv \<noteq> [] \<longrightarrow>
        fst (submit_review rv)
          = Some (post_fn (requester rv) (calls (requester rv)) (reviews_url rv)
                    [(''body'', JStr (''Imhotep detected '' @ str_of_nat (length (comments rv))
                                       @ '' potential problems with this PR.'')),
                     (''event'', JStr ''COMMENT''),
                     (''comments'', JArr (map JObj (comments rv)))])
        \<and> calls (requester (snd (submit_review rv)))
          = calls (requester rv)
            @ [POST (reviews_url rv)
                 [(''body'', JStr (''Imhotep detected '' @ str_of_nat (length (comments rv))
                                    @ '' potential problems with this PR.'')),
                  (''event'', JStr ''COMMENT''),
                  (''comments'', JArr (map JObj (comments rv)))]]
        \<and> comments (snd (submit_review rv)) = comments rv)
   \<and> reviews_url rv = ''https://api.'' @ domain rv @ ''/repos/'' @ repo_name rv @ ''/pulls/''
                        @ pr_number rv @ ''/reviews''
   \<and> nat_of_str (str_of_nat (length (comments rv))) = length (comments rv)"
proof (intro conjI impI)
  show "submit_review rv = (None, rv\<lparr>pr_reviews_url := Some (reviews_url rv)\<rparr>)"
    if "comments rv = []"
    using that by (simp add: submit_review_def)
  show "fst (submit_review rv)
          = Some (post_fn (requester rv) (calls (requester rv)) (reviews_url rv)
                    [(''body'', JStr (''Imhotep detected '' @ str_of_nat (length (comments rv))
                                       @ '' potential problems with this PR.'')),
                     (''event'', JStr ''COMMENT''),
                     (''comments'', JArr (map JObj (comments rv)))])"
    if "comments rv \<noteq> []"
    using that
    by (simp add: submit_review_def Let_def split_beta post_and_log_fst review_payload_def)
  show "calls (requester (snd (submit_review rv)))
          = calls (requester rv)
            @ [POST (reviews_url rv)
                 [(''body'', JStr (''Imhotep detected '' @ str_of_nat (length (comments rv))
                                    @ '' potential problems with this PR.'')),
                  (''event'', JStr ''COMMENT''),
                  (''comments'', JArr (map JObj (comments rv)))]]"
    if "comments rv \<noteq> []"
    using that by (simp add: submit_review_calls review_payload_def)
  show "comments (snd (submit_review rv)) = comments rv"
    by simp
  show "reviews_url rv = ''https://api.'' @ domain rv @ ''/repos/'' @ repo_name rv @ ''/pulls/''
                        @ pr_number rv @ ''/reviews''"
    by (simp add: reviews_url_def)
  show "nat_of_str (str_of_nat (length (comments rv))) = length (comments rv)"
    by (rule nat_of_str_of_nat)
qed

text \<open>The empty review, and the test \<open>test_pr_review_reporter_should_post_review\<close>.\<close>

theorem submit_review_posts_pending_witness:
  "submit_review review_reporter
     = (None, review_reporter\<lparr>pr_reviews_url :=
                Some ''https://api.github.com/repos/justinabrahms/imhotep/pulls/10/reviews''\<rparr>)
   \<and> fst (submit_review (review_reporter\<lparr>comments := [lorem_payload]\<rparr>))
     = Some \<lparr>status_code = 200, json = JObj []\<rparr>
   \<and> calls (requester (snd (submit_review (review_reporter\<lparr>comments := [lorem_payload]\<rparr>))))
     = [POST ''https://api.github.com/repos/justinabrahms/imhotep/pulls/10/reviews''
          [(''body'', JStr ''Imhotep detected 1 potential problems with this PR.''),
           (''event'', JStr ''COMMENT''),
           (''comments'', JArr [JObj lorem_payload])]]"
proof -
  let ?rv = "review_reporter\<lparr>comments := [lorem_payload]\<rparr>"
  have u: "reviews_url review_reporter
           = ''https://api.github.com/repos/justinabrahms/imhotep/pulls/10/reviews''"
    "reviews_url ?rv = ''https://api.github.com/repos/justinabrahms/imhotep/pulls/10/reviews''"
    by (simp_all add: review_reporter_def run_defs)
  have e: "comments review_reporter = []"
    by (simp add: review_reporter_def run_defs)
  have n: "comments ?rv \<noteq> []"
    by simp
  have s: "str_of_nat (Suc 0) = ''1''"
    by (simp add: str_of_nat.simps digit_char_def)
  have a: "submit_review review_reporter
     = (None, review_reporter\<lparr>pr_reviews_url :=
                Some ''https://api.github.com/repos/justinabrahms/imhotep/pulls/10/reviews''\<rparr>)"
    using submit_review_posts_pending [THEN conjunct1, rule_format, OF e] by (simp add: u)
  have b: "fst (submit_review ?rv) = Some \<lparr>status_code = 200, json = JObj []\<rparr>"
    using submit_review_posts_pending
            [THEN conjunct2, THEN conjunct1, rule_format, OF n, THEN conjunct1]
    by (simp add: review_reporter_def run_defs)
  have c: "calls (requester (snd (submit_review ?rv)))
     = [POST ''https://api.github.com/repos/justinabrahms/imhotep/pulls/10/reviews''
          [(''body'', JStr ''Imhotep detected 1 potential problems with this PR.''),
           (''event'', JStr ''COMMENT''),
           (''comments'', JArr [JObj lorem_payload])]]"
    using submit_review_posts_pending
            [THEN conjunct2, THEN conjunct1, rule_format, OF n, THEN conjunct2, THEN conjunct1]
    by (simp add: u s) (simp add: review_reporter_def run_defs)
  show ?thesis using a b c by (intro conjI)
qed

end
